theory Spec2Isabelle
  imports Main "HOL-Library.Sublist"
begin

section \<open>Go values\<close>

text \<open>
  The handler of \<^verbatim>\<open>ontap_storage_virtual_machine_data_source.go\<close> hands Go values of
  type \<^verbatim>\<open>interface{}\<close> to the provider SDK. The constructors are the shapes that occur in
  the file: an untyped nil, a string, a \<^verbatim>\<open>*string\<close> (nil is \<open>None\<close>), a
  \<^verbatim>\<open>[]interface{}\<close> (the nil slice is \<open>None\<close>, the empty slice is \<open>Some []\<close>), a
  \<^verbatim>\<open>map[string]interface{}\<close> and a \<^verbatim>\<open>map[string]string\<close>.
\<close>

datatype val =
    VNil
  | VString string
  | VStringPtr "string option"
  | VSlice "val list option"
  | VMap "string \<rightharpoonup> val"
  | VStringMap "string \<rightharpoonup> string"

text \<open>A Go \<^verbatim>\<open>error\<close> is kept as the text its \<^verbatim>\<open>Error()\<close> method returns.\<close>

datatype error = New (Error: string)

text \<open>\<^verbatim>\<open>aws.StringValue\<close>: the string behind a \<^verbatim>\<open>*string\<close>, the empty string for nil.\<close>

definition StringValue :: "string option \<Rightarrow> string" where
  "StringValue p = (case p of None \<Rightarrow> '''' | Some s \<Rightarrow> s)"

text \<open>\<^verbatim>\<open>aws.StringSlice\<close>: a \<^verbatim>\<open>[]string\<close> as a non-nil \<^verbatim>\<open>[]*string\<close>.\<close>

definition StringSlice :: "string list \<Rightarrow> string list option" where
  "StringSlice ss = Some ss"

text \<open>Go's \<^verbatim>\<open>len\<close> of a slice: 0 for the nil slice.\<close>

definition len :: "'a list option \<Rightarrow> nat" where
  "len s = (case s of None \<Rightarrow> 0 | Some xs \<Rightarrow> length xs)"

text \<open>
  \<^verbatim>\<open>fmt.Sprintf\<close> for a format with one \<^verbatim>\<open>%s\<close> verb and one argument, the only use
  the file makes of it: the argument's text replaces the verb.
\<close>

fun Sprintf :: "string \<Rightarrow> string \<Rightarrow> string" where
  "Sprintf [] a = []"
| "Sprintf (c # cs) a =
     (if c = CHR ''%'' \<and> take 1 cs = ''s'' then a @ drop 1 cs else c # Sprintf cs a)"

section \<open>The remote entity and the describe request\<close>

text \<open>
  The fields of \<^verbatim>\<open>fsx.StorageVirtualMachine\<close> that the handler reads (lines 222 to 243).
  The active directory configuration and the endpoints are only passed on to flatteners
  defined elsewhere, so their types stay opaque. A \<^verbatim>\<open>time.Time\<close> is kept as the text
  that \<^verbatim>\<open>Format(time.RFC3339)\<close> prints for it; the formatting is the standard library's.
\<close>

record LifecycleTransitionReason =
  Message :: "string option"

record Tag =
  Key :: "string option"
  Value :: "string option"

typedecl SvmActiveDirectoryConfiguration

typedecl SvmEndpoints

datatype Time = Time string

fun Format_RFC3339 :: "Time \<Rightarrow> string" where
  "Format_RFC3339 (Time s) = s"

record StorageVirtualMachine =
  ActiveDirectoryConfiguration :: "SvmActiveDirectoryConfiguration option"
  CreationTime :: "Time option"
  Endpoints :: "SvmEndpoints option"
  FileSystemId :: "string option"
  Lifecycle :: "string option"
  LifecycleTransitionReason :: "LifecycleTransitionReason option"
  Name :: "string option"
  ResourceARN :: "string option"
  StorageVirtualMachineId :: "string option"
  Subtype :: "string option"
  Tags :: "Tag list"
  UUID :: "string option"

record StorageVirtualMachineFilter =
  FilterName :: "string option"
  FilterValues :: "string list"

record DescribeStorageVirtualMachinesInput =
  Filters :: "StorageVirtualMachineFilter list option"
  StorageVirtualMachineIds :: "string list option"

text \<open>
  The FSx connection, as far as this file uses it: the remote
  \<^verbatim>\<open>DescribeStorageVirtualMachines\<close> call, which answers a request with an error or with
  the matching entities.
\<close>

type_synonym FSx =
  "DescribeStorageVirtualMachinesInput \<Rightarrow> error + StorageVirtualMachine list"

section \<open>The provider SDK: resource data and diagnostics\<close>

text \<open>
  \<^verbatim>\<open>schema.ResourceData\<close>, as far as the handler touches it.
  \<^item> \<open>GetOk_id\<close> is what \<^verbatim>\<open>d.GetOk(names.AttrID)\<close> returns: the value and the flag
    \<^verbatim>\<open>ok\<close>, which the SDK decides. The schema declares \<^verbatim>\<open>id\<close> a string (line 158), so
    the value is one and the handler's assertion \<^verbatim>\<open>v.(string)\<close> holds.
  \<^item> \<open>Get_filter\<close> is what \<^verbatim>\<open>d.Get(names.AttrFilter).(*schema.Set)\<close> holds: the
    configured filter blocks, each a name with its values.
  \<^item> \<open>Id\<close> is the state identifier that \<^verbatim>\<open>d.SetId\<close> writes.
  \<^item> \<open>attrs\<close> holds, per attribute, the value that the last successful \<^verbatim>\<open>d.Set\<close>
    was given.
  \<^item> \<open>WriteField\<close> is the verdict of the SDK's field writer on a key and a value (the
    type and shape check against the schema): \<open>None\<close> accepts, \<open>Some err\<close> refuses.
\<close>

record ResourceData =
  GetOk_id :: "string \<times> bool"
  Get_filter :: "(string \<times> string list) list"
  Id :: string
  attrs :: "string \<rightharpoonup> val"
  WriteField :: "string \<Rightarrow> val \<Rightarrow> error option"

definition SetId :: "string \<Rightarrow> ResourceData \<Rightarrow> ResourceData" where
  "SetId v d = d\<lparr>Id := v\<rparr>"

text \<open>
  \<^verbatim>\<open>d.Set(key, value)\<close> returns the field writer's error and the resource data; a
  refused value leaves the attributes as they were.
\<close>

definition Set :: "string \<Rightarrow> val \<Rightarrow> ResourceData \<Rightarrow> error option \<times> ResourceData" where
  "Set k v d =
     (case WriteField d k v of
        Some err \<Rightarrow> (Some err, d)
      | None \<Rightarrow> (None, d\<lparr>attrs := (attrs d)(k \<mapsto> v)\<rparr>))"

datatype Severity = SeverityError | SeverityWarning

record Diagnostic =
  Severity :: Severity
  Summary :: string

type_synonym Diagnostics = "Diagnostic list"

text \<open>
  Modelled from the spec: \<^verbatim>\<open>sdkdiag.AppendErrorf\<close> belongs to the provider's
  \<^verbatim>\<open>internal/errs/sdkdiag\<close> package and is not in this file. The spec has the error
  "wrapped with a descriptive prefix and reported as a diagnostic": one error diagnostic
  is appended, its message the format with the error's text put in.
\<close>

definition AppendErrorf :: "Diagnostics \<Rightarrow> string \<Rightarrow> error \<Rightarrow> Diagnostics" where
  "AppendErrorf diags format err =
     diags @ [\<lparr>Severity = SeverityError, Summary = Sprintf format (Error err)\<rparr>]"

text \<open>
  Modelled from the spec: the attribute names of the provider's \<^verbatim>\<open>names\<close> package are
  not in this file. The spec's declared attribute surface lists them: \<^verbatim>\<open>id\<close>,
  \<^verbatim>\<open>filter\<close>, \<^verbatim>\<open>arn\<close>, \<^verbatim>\<open>creation_time\<close>, \<^verbatim>\<open>endpoints\<close>,
  \<^verbatim>\<open>file_system_id\<close>, \<^verbatim>\<open>name\<close>, \<^verbatim>\<open>tags\<close>.
\<close>

definition AttrARN :: string where "AttrARN = ''arn''"

definition AttrCreationTime :: string where "AttrCreationTime = ''creation_time''"

definition AttrEndpoints :: string where "AttrEndpoints = ''endpoints''"

definition AttrFileSystemID :: string where "AttrFileSystemID = ''file_system_id''"

definition AttrName :: string where "AttrName = ''name''"

definition AttrTags :: string where "AttrTags = ''tags''"

section \<open>The shared tagging library\<close>

text \<open>
  The provider-wide tag configuration held by the client: the default tags, and the keys
  and key prefixes to ignore.
\<close>

type_synonym KeyValueTags = "string \<rightharpoonup> string"

record DefaultConfig =
  DefaultTags :: KeyValueTags

record IgnoreConfig =
  Keys :: "string list"
  KeyPrefixes :: "string list"

text \<open>
  Modelled from the spec: \<^verbatim>\<open>KeyValueTags\<close> is generated code of the service package and
  is not in this file. It turns "the remote entity's tags" into the library's map from key
  to value; of two tags with one key the later stands.
\<close>

definition KeyValueTags :: "Tag list \<Rightarrow> KeyValueTags" where
  "KeyValueTags tags =
     fold (\<lambda>tag m. m(StringValue (Key tag) \<mapsto> StringValue (Value tag))) tags Map.empty"

text \<open>
  Modelled from the spec: \<^verbatim>\<open>IgnoreAWS\<close> belongs to the provider's \<^verbatim>\<open>internal/tags\<close>
  package and is not in this file. The spec has the tags that match "AWS-reserved
  prefixes" excluded; the prefix AWS reserves for its own tags is \<^verbatim>\<open>aws:\<close>.
\<close>

definition AwsTagKeyPrefix :: string where
  "AwsTagKeyPrefix = ''aws:''"

definition IgnoreAWS :: "KeyValueTags \<Rightarrow> KeyValueTags" where
  "IgnoreAWS tags = (\<lambda>k. if prefix AwsTagKeyPrefix k then None else tags k)"

text \<open>
  Modelled from the spec: \<^verbatim>\<open>IgnoreConfig\<close> belongs to the provider's
  \<^verbatim>\<open>internal/tags\<close> package and is not in this file. The spec has the tags "that match
  the ignore-configuration" excluded: those whose key is one of the configured keys or
  starts with one of the configured prefixes. Without a configuration nothing is excluded.
\<close>

definition IgnoreConfig :: "IgnoreConfig option \<Rightarrow> KeyValueTags \<Rightarrow> KeyValueTags" where
  "IgnoreConfig config tags =
     (case config of
        None \<Rightarrow> tags
      | Some c \<Rightarrow>
          (\<lambda>k. if k \<in> set (Keys c) \<or> (\<exists>p \<in> set (KeyPrefixes c). prefix p k)
               then None else tags k))"

text \<open>
  Modelled from the spec: \<^verbatim>\<open>RemoveDefaultConfig\<close> belongs to the provider's
  \<^verbatim>\<open>internal/tags\<close> package and is not in this file. The spec says of this step only
  that the tags are "merged with default-tag configuration"; the handler calls the helper
  under the name \<^verbatim>\<open>RemoveDefaultConfig\<close>, and the definition follows what that name
  says: a tag that the default-tag configuration carries under the same key with the same
  value is removed, every other tag is kept, and nothing is added. Without a
  configuration nothing is removed.
\<close>

definition RemoveDefaultConfig :: "DefaultConfig option \<Rightarrow> KeyValueTags \<Rightarrow> KeyValueTags" where
  "RemoveDefaultConfig dc tags =
     (case dc of
        None \<Rightarrow> tags
      | Some c \<Rightarrow>
          (\<lambda>k. case tags k of
                 None \<Rightarrow> None
               | Some v \<Rightarrow> if DefaultTags c k = Some v then None else Some v))"

text \<open>\<^verbatim>\<open>Map\<close>: the tags as a \<^verbatim>\<open>map[string]string\<close>.\<close>

definition Map :: "KeyValueTags \<Rightarrow> val" where
  "Map tags = VStringMap tags"


section \<open>The client and the collaborators defined in other files\<close>

record AWSClient =
  FSxConn :: FSx
  DefaultTagsConfig :: "DefaultConfig option"
  IgnoreTagsConfig :: "IgnoreConfig option"

text \<open>
  Three functions of the service package that the handler calls are defined in other
  files; the handler is stated for any such functions.
  \<^item> \<open>findStorageVirtualMachine\<close>: the lookup that answers with one entity or an error.
  \<^item> \<open>flattenSvmActiveDirectoryConfiguration\<close> and \<open>flattenSvmEndpoints\<close>: the
    flatteners of the two opaque structures.
\<close>

record externals =
  findStorageVirtualMachine ::
    "FSx \<Rightarrow> DescribeStorageVirtualMachinesInput \<Rightarrow> (StorageVirtualMachine \<Rightarrow> bool)
       \<Rightarrow> error + StorageVirtualMachine"
  flattenSvmActiveDirectoryConfiguration ::
    "ResourceData \<Rightarrow> SvmActiveDirectoryConfiguration option \<Rightarrow> val list option"
  flattenSvmEndpoints :: "SvmEndpoints option \<Rightarrow> val list option"

text \<open>\<^verbatim>\<open>tfslices.PredicateTrue\<close>: the predicate that holds of every element.\<close>

definition PredicateTrue :: "'a \<Rightarrow> bool" where
  "PredicateTrue = (\<lambda>_. True)"

text \<open>
  Modelled from the spec: \<^verbatim>\<open>newStorageVirtualMachineFilterList\<close> is defined in another
  file of the service package. The spec has the configured filters as "a caller-supplied
  set of name/value pairs" that become the request's "list of name/value filters": one
  filter of the request per configured block.
\<close>

definition newStorageVirtualMachineFilterList ::
  "(string \<times> string list) list \<Rightarrow> StorageVirtualMachineFilter list option" where
  "newStorageVirtualMachineFilterList s =
     Some (map (\<lambda>(n, vs). \<lparr>FilterName = Some n, FilterValues = vs\<rparr>) s)"

text \<open>
  Modelled from the spec: the shared "find exactly one" helper, for which "zero or
  multiple matches is an error condition". The spec does not give the two errors; they
  are arguments here. An error of the remote call is passed on.
\<close>

definition findExactlyOne ::
  "error \<Rightarrow> error \<Rightarrow> FSx \<Rightarrow> DescribeStorageVirtualMachinesInput
     \<Rightarrow> (StorageVirtualMachine \<Rightarrow> bool) \<Rightarrow> error + StorageVirtualMachine" where
  "findExactlyOne none many conn input f =
     (case conn input of
        Inl err \<Rightarrow> Inl err
      | Inr output \<Rightarrow>
          (case filter f output of
             [] \<Rightarrow> Inl none
           | [svm] \<Rightarrow> Inr svm
           | _ \<Rightarrow> Inl many))"

section \<open>The file's functions\<close>

text \<open>
  \<^verbatim>\<open>flattenLifecycleTransitionReason\<close> (lines 253 to 265). The argument is a pointer:
  \<open>None\<close> is nil. The result is a slice: \<open>None\<close> would be the nil slice.
\<close>

definition flattenLifecycleTransitionReason ::
  "LifecycleTransitionReason option \<Rightarrow> val list option" where
  "flattenLifecycleTransitionReason rs =
     (case rs of
        None \<Rightarrow> Some []
      | Some r \<Rightarrow>
          (let m = Map.empty;
               m = (if Message r \<noteq> None
                    then m(''message'' \<mapsto> VString (StringValue (Message r)))
                    else m)
           in Some [VMap m]))"

text \<open>
  The describe request that the handler builds (lines 202 to 214): the identifier when
  \<^verbatim>\<open>GetOk\<close> reports one, the filters, and nil in place of a filter list of length 0.
\<close>

definition describeInput :: "ResourceData \<Rightarrow> DescribeStorageVirtualMachinesInput" where
  "describeInput d =
     (let input = \<lparr>Filters = None, StorageVirtualMachineIds = None\<rparr>;
          input = (case GetOk_id d of
                     (v, ok) \<Rightarrow>
                       if ok then input\<lparr>StorageVirtualMachineIds := StringSlice [v]\<rparr>
                       else input);
          input = input\<lparr>Filters := newStorageVirtualMachineFilterList (Get_filter d)\<rparr>;
          input = (if len (Filters input) = 0 then input\<lparr>Filters := None\<rparr> else input)
      in input)"

text \<open>
  What a call of the handler ends in: it returns its diagnostics, leaving the resource
  data as written so far, or it panics.
\<close>

datatype outcome = Returns (diagsOf: Diagnostics) (dataOf: ResourceData) | Panics

text \<open>
  \<^verbatim>\<open>dataSourceONTAPStorageVirtualMachineRead\<close> (lines 196 to 251). The errors of the
  \<^verbatim>\<open>d.Set\<close> calls on plain attributes are dropped, as in the source.
  \<^verbatim>\<open>svm.CreationTime.Format\<close> dereferences the pointer: a nil creation time panics.
\<close>

definition dataSourceONTAPStorageVirtualMachineRead ::
  "externals \<Rightarrow> ResourceData \<Rightarrow> AWSClient \<Rightarrow> outcome" where
  "dataSourceONTAPStorageVirtualMachineRead x d meta =
     (let diags = [];
          conn = FSxConn meta;
          defaultTagsConfig = DefaultTagsConfig meta;
          ignoreTagsConfig = IgnoreTagsConfig meta;
          input = describeInput d
      in case findStorageVirtualMachine x conn input PredicateTrue of
           Inl err \<Rightarrow>
             Returns (AppendErrorf diags
               ''reading FSx ONTAP Storage Virtual Machine: %s'' err) d
         | Inr svm \<Rightarrow>
             (let d = SetId (StringValue (StorageVirtualMachineId svm)) d
              in case Set ''active_directory_configuration''
                        (VSlice (flattenSvmActiveDirectoryConfiguration x d
                           (ActiveDirectoryConfiguration svm))) d of
                   (Some err, d) \<Rightarrow>
                     Returns (AppendErrorf diags
                       ''setting active_directory_configuration: %s'' err) d
                 | (None, d) \<Rightarrow>
             (let d = snd (Set AttrARN (VStringPtr (ResourceARN svm)) d)
              in case CreationTime svm of
                   None \<Rightarrow> Panics
                 | Some t \<Rightarrow>
             (let d = snd (Set AttrCreationTime (VString (Format_RFC3339 t)) d)
              in case Set AttrEndpoints (VSlice (flattenSvmEndpoints x (Endpoints svm))) d of
                   (Some err, d) \<Rightarrow>
                     Returns (AppendErrorf diags ''setting endpoints: %s'' err) d
                 | (None, d) \<Rightarrow>
             (let d = snd (Set AttrFileSystemID (VStringPtr (FileSystemId svm)) d);
                  d = snd (Set ''lifecycle_status'' (VStringPtr (Lifecycle svm)) d)
              in case Set ''lifecycle_transition_reason''
                        (VSlice (flattenLifecycleTransitionReason
                           (LifecycleTransitionReason svm))) d of
                   (Some err, d) \<Rightarrow>
                     Returns (AppendErrorf diags
                       ''setting lifecycle_transition_reason: %s'' err) d
                 | (None, d) \<Rightarrow>
             (let d = snd (Set AttrName (VStringPtr (Name svm)) d);
                  d = snd (Set ''subtype'' (VStringPtr (Subtype svm)) d);
                  d = snd (Set ''uuid'' (VStringPtr (UUID svm)) d);
                  tags = IgnoreConfig ignoreTagsConfig (IgnoreAWS (KeyValueTags (Tags svm)))
              in case Set AttrTags (Map (RemoveDefaultConfig defaultTagsConfig tags)) d of
                   (Some err, d) \<Rightarrow>
                     Returns (AppendErrorf diags ''setting tags: %s'' err) d
                 | (None, d) \<Rightarrow> Returns diags d))))))"

section \<open>The order of the writes, and example inputs\<close>

text \<open>
  The attributes in the order in which the handler sets them (lines 223 to 246), and
  those set after a given one.
\<close>

definition setOrder :: "string list" where
  "setOrder =
     [''active_directory_configuration'', AttrARN, AttrCreationTime, AttrEndpoints,
      AttrFileSystemID, ''lifecycle_status'', ''lifecycle_transition_reason'', AttrName,
      ''subtype'', ''uuid'', AttrTags]"

definition setAfter :: "string \<Rightarrow> string list" where
  "setAfter k = tl (dropWhile (\<lambda>k'. k' \<noteq> k) setOrder)"


text \<open>
  Example inputs: collaborators whose lookup is the "find exactly one" helper, a storage
  virtual machine as the service may describe it, a client whose remote call answers with
  given entities and whose tag configuration has default tags and ignored keys, and
  resource data with an identifier, one filter and a given field writer.
\<close>

definition example_externals :: externals where
  "example_externals =
     \<lparr>findStorageVirtualMachine =
        findExactlyOne (New ''empty result'') (New ''too many results''),
      flattenSvmActiveDirectoryConfiguration = (\<lambda>d ad. Some []),
      flattenSvmEndpoints = (\<lambda>ep. Some [])\<rparr>"

definition example_svm :: StorageVirtualMachine where
  "example_svm =
     \<lparr>ActiveDirectoryConfiguration = None,
      CreationTime = Some (Time ''2023-07-01T12:00:00Z''),
      Endpoints = None,
      FileSystemId = Some ''fs-0123456789abcdef0'',
      Lifecycle = Some ''CREATED'',
      LifecycleTransitionReason = None,
      Name = Some ''svm1'',
      ResourceARN = Some ''arn:aws:fsx:us-west-2:123456789012:storage-virtual-machine/fs-0/svm-0'',
      StorageVirtualMachineId = Some ''svm-0123456789abcdef0'',
      Subtype = Some ''DEFAULT'',
      Tags =
        [\<lparr>Key = Some ''Name'', Value = Some ''svm1''\<rparr>,
         \<lparr>Key = Some ''aws:cloudformation:stack-name'', Value = Some ''storage''\<rparr>,
         \<lparr>Key = Some ''Environment'', Value = Some ''prod''\<rparr>,
         \<lparr>Key = Some ''Team'', Value = Some ''files''\<rparr>],
      UUID = Some ''11111111-2222-3333-4444-555555555555''\<rparr>"

definition example_client :: "StorageVirtualMachine list \<Rightarrow> AWSClient" where
  "example_client svms =
     \<lparr>FSxConn = (\<lambda>input. Inr svms),
      DefaultTagsConfig =
        Some \<lparr>DefaultTags = [''Environment'' \<mapsto> ''prod'', ''Owner'' \<mapsto> ''ops'']\<rparr>,
      IgnoreTagsConfig = Some \<lparr>Keys = [''Team''], KeyPrefixes = [''kubernetes.io/'']\<rparr>\<rparr>"

definition example_data :: "(string \<Rightarrow> val \<Rightarrow> error option) \<Rightarrow> ResourceData" where
  "example_data w =
     \<lparr>GetOk_id = (''svm-0123456789abcdef0'', True),
      Get_filter = [(''file-system-id'', [''fs-0123456789abcdef0''])],
      Id = '''',
      attrs = Map.empty,
      WriteField = w\<rparr>"

text \<open>A field writer that accepts everything, and one that refuses one attribute.\<close>

definition accepting :: "string \<Rightarrow> val \<Rightarrow> error option" where
  "accepting k v = None"

definition refusing :: "string \<Rightarrow> string \<Rightarrow> val \<Rightarrow> error option" where
  "refusing k0 k v = (if k = k0 then Some (New ''invalid value'') else None)"

section \<open>Auxiliary facts\<close>

lemmas Attr_defs = AttrARN_def AttrCreationTime_def AttrEndpoints_def AttrFileSystemID_def
  AttrName_def AttrTags_def

lemma fst_Set [simp]: "fst (Set k v d) = WriteField d k v"
  by (simp add: Set_def split: option.splits)

lemma snd_Set_fields [simp]:
  "WriteField (snd (Set k v d)) = WriteField d"
  "Id (snd (Set k v d)) = Id d"
  "GetOk_id (snd (Set k v d)) = GetOk_id d"
  "Get_filter (snd (Set k v d)) = Get_filter d"
  by (simp_all add: Set_def split: option.splits)

lemma snd_Set_attrs:
  "attrs (snd (Set k v d)) k' =
     (if k' = k \<and> WriteField d k v = None then Some v else attrs d k')"
  by (simp add: Set_def split: option.splits)

lemma SetId_fields [simp]:
  "WriteField (SetId v d) = WriteField d"
  "Id (SetId v d) = v"
  "attrs (SetId v d) = attrs d"
  by (simp_all add: SetId_def)

lemma setAfter_simps:
  "setAfter ''active_directory_configuration'' =
     [''arn'', ''creation_time'', ''endpoints'', ''file_system_id'', ''lifecycle_status'',
      ''lifecycle_transition_reason'', ''name'', ''subtype'', ''uuid'', ''tags'']"
  "setAfter ''endpoints'' =
     [''file_system_id'', ''lifecycle_status'', ''lifecycle_transition_reason'', ''name'',
      ''subtype'', ''uuid'', ''tags'']"
  "setAfter ''lifecycle_transition_reason'' = [''name'', ''subtype'', ''uuid'', ''tags'']"
  "setAfter ''tags'' = []"
  by (simp_all add: setAfter_def setOrder_def Attr_defs)



text \<open>The example inputs, evaluated.\<close>

lemma example_find:
  "findStorageVirtualMachine example_externals (FSxConn (example_client [example_svm]))
     (describeInput (example_data w)) PredicateTrue = Inr example_svm"
  by (simp add: example_externals_def example_client_def findExactlyOne_def PredicateTrue_def)




section \<open>The read handler: failures\<close>

text \<open>
  C1. Whenever the lookup returns an error (an error of the remote call, no match, more
  than one match: whatever the lookup helper reports), the handler returns exactly one
  error diagnostic whose message is \<^verbatim>\<open>reading FSx ONTAP Storage Virtual Machine: \<close>
  followed by the error's text, and the resource data is returned as it was: no state
  identifier and no attribute is written.
\<close>

theorem lookup_error_reported:
  assumes "findStorageVirtualMachine x (FSxConn meta) (describeInput d) PredicateTrue = Inl err"
  shows "dataSourceONTAPStorageVirtualMachineRead x d meta =
           Returns [\<lparr>Severity = SeverityError,
                     Summary = ''reading FSx ONTAP Storage Virtual Machine: '' @ Error err\<rparr>] d"
  using assms
  by (simp add: dataSourceONTAPStorageVirtualMachineRead_def AppendErrorf_def)

text \<open>
  The example lookup on a remote answer without a match, and on one with two matches.
\<close>

theorem lookup_error_reported_witness:
  "findStorageVirtualMachine example_externals (FSxConn (example_client []))
       (describeInput (example_data accepting)) PredicateTrue = Inl (New ''empty result'')
   \<and> dataSourceONTAPStorageVirtualMachineRead example_externals (example_data accepting)
         (example_client [])
       = Returns [\<lparr>Severity = SeverityError,
            Summary = ''reading FSx ONTAP Storage Virtual Machine: empty result''\<rparr>]
           (example_data accepting)
   \<and> findStorageVirtualMachine example_externals
         (FSxConn (example_client [example_svm, example_svm]))
         (describeInput (example_data accepting)) PredicateTrue
       = Inl (New ''too many results'')
   \<and> dataSourceONTAPStorageVirtualMachineRead example_externals (example_data accepting)
         (example_client [example_svm, example_svm])
       = Returns [\<lparr>Severity = SeverityError,
            Summary = ''reading FSx ONTAP Storage Virtual Machine: too many results''\<rparr>]
           (example_data accepting)"
proof -
  have none: "findStorageVirtualMachine example_externals (FSxConn (example_client []))
       (describeInput (example_data accepting)) PredicateTrue = Inl (New ''empty result'')"
    by (simp add: example_externals_def example_client_def findExactlyOne_def)
  have many: "findStorageVirtualMachine example_externals
         (FSxConn (example_client [example_svm, example_svm]))
         (describeInput (example_data accepting)) PredicateTrue
       = Inl (New ''too many results'')"
    by (simp add: example_externals_def example_client_def findExactlyOne_def
        PredicateTrue_def)
  from lookup_error_reported [OF none] lookup_error_reported [OF many] none many
  show ?thesis by simp
qed

text \<open>
  C2. After a successful lookup, when the field writer refuses the value that the handler
  sets for one of \<^verbatim>\<open>active_directory_configuration\<close>, \<^verbatim>\<open>endpoints\<close>,
  \<^verbatim>\<open>lifecycle_transition_reason\<close> and \<^verbatim>\<open>tags\<close> (the checked writes before it having
  been accepted, and the creation time being present for the three that come after it is
  formatted), the handler returns exactly one error diagnostic whose message is
  \<^verbatim>\<open>setting \<close>, the attribute's name, \<^verbatim>\<open>: \<close> and the error's text, and every attribute
  that the source sets after the refused one is left as it was before the call.
\<close>

theorem set_failure_aborts_read:
  fixes x d meta svm err
  defines "d1 \<equiv> SetId (StringValue (StorageVirtualMachineId svm)) d"
  defines "vAD \<equiv> VSlice (flattenSvmActiveDirectoryConfiguration x d1
                     (ActiveDirectoryConfiguration svm))"
  defines "vEP \<equiv> VSlice (flattenSvmEndpoints x (Endpoints svm))"
  defines "vLTR \<equiv> VSlice (flattenLifecycleTransitionReason (LifecycleTransitionReason svm))"
  defines "vTags \<equiv> Map (RemoveDefaultConfig (DefaultTagsConfig meta)
                     (IgnoreConfig (IgnoreTagsConfig meta) (IgnoreAWS (KeyValueTags (Tags svm)))))"
  defines "reported k d' \<equiv>
             dataSourceONTAPStorageVirtualMachineRead x d meta =
               Returns [\<lparr>Severity = SeverityError,
                         Summary = ''setting '' @ k @ '': '' @ Error err\<rparr>] d'
             \<and> (\<forall>k' \<in> set (setAfter k). attrs d' k' = attrs d k')"
  assumes find:
    "findStorageVirtualMachine x (FSxConn meta) (describeInput d) PredicateTrue = Inr svm"
  shows "(WriteField d ''active_directory_configuration'' vAD = Some err
            \<longrightarrow> (\<exists>d'. reported ''active_directory_configuration'' d'))
       \<and> (WriteField d ''active_directory_configuration'' vAD = None
            \<and> CreationTime svm \<noteq> None
            \<and> WriteField d AttrEndpoints vEP = Some err
            \<longrightarrow> (\<exists>d'. reported AttrEndpoints d'))
       \<and> (WriteField d ''active_directory_configuration'' vAD = None
            \<and> CreationTime svm \<noteq> None
            \<and> WriteField d AttrEndpoints vEP = None
            \<and> WriteField d ''lifecycle_transition_reason'' vLTR = Some err
            \<longrightarrow> (\<exists>d'. reported ''lifecycle_transition_reason'' d'))
       \<and> (WriteField d ''active_directory_configuration'' vAD = None
            \<and> CreationTime svm \<noteq> None
            \<and> WriteField d AttrEndpoints vEP = None
            \<and> WriteField d ''lifecycle_transition_reason'' vLTR = None
            \<and> WriteField d AttrTags vTags = Some err
            \<longrightarrow> (\<exists>d'. reported AttrTags d'))"
proof (intro conjI impI)
  assume "WriteField d ''active_directory_configuration'' vAD = Some err"
  then show "\<exists>d'. reported ''active_directory_configuration'' d'"
    using find unfolding reported_def vAD_def d1_def
    by (simp add: dataSourceONTAPStorageVirtualMachineRead_def Let_def case_prod_unfold
        AppendErrorf_def Attr_defs setAfter_simps snd_Set_attrs)
next
  assume "WriteField d ''active_directory_configuration'' vAD = None
            \<and> CreationTime svm \<noteq> None
            \<and> WriteField d AttrEndpoints vEP = Some err"
  then show "\<exists>d'. reported AttrEndpoints d'"
    using find unfolding reported_def vAD_def d1_def vEP_def
    by (simp add: dataSourceONTAPStorageVirtualMachineRead_def Let_def case_prod_unfold
        AppendErrorf_def Attr_defs setAfter_simps snd_Set_attrs split: option.splits)
next
  assume "WriteField d ''active_directory_configuration'' vAD = None
            \<and> CreationTime svm \<noteq> None
            \<and> WriteField d AttrEndpoints vEP = None
            \<and> WriteField d ''lifecycle_transition_reason'' vLTR = Some err"
  then show "\<exists>d'. reported ''lifecycle_transition_reason'' d'"
    using find unfolding reported_def vAD_def d1_def vEP_def vLTR_def
    by (simp add: dataSourceONTAPStorageVirtualMachineRead_def Let_def case_prod_unfold
        AppendErrorf_def Attr_defs setAfter_simps snd_Set_attrs split: option.splits)
next
  assume "WriteField d ''active_directory_configuration'' vAD = None
            \<and> CreationTime svm \<noteq> None
            \<and> WriteField d AttrEndpoints vEP = None
            \<and> WriteField d ''lifecycle_transition_reason'' vLTR = None
            \<and> WriteField d AttrTags vTags = Some err"
  then show "\<exists>d'. reported AttrTags d'"
    using find unfolding reported_def vAD_def d1_def vEP_def vLTR_def vTags_def
    by (simp add: dataSourceONTAPStorageVirtualMachineRead_def Let_def case_prod_unfold
        AppendErrorf_def Attr_defs setAfter_simps snd_Set_attrs split: option.splits)
qed

text \<open>
  The example read with a field writer that refuses one of the four attributes, for each
  of the four: the attributes set after the refused one were absent and stay absent.
\<close>

theorem set_failure_aborts_read_witness:
  "(\<exists>d'. dataSourceONTAPStorageVirtualMachineRead example_externals
            (example_data (refusing ''active_directory_configuration''))
            (example_client [example_svm])
          = Returns [\<lparr>Severity = SeverityError,
               Summary = ''setting active_directory_configuration: invalid value''\<rparr>] d'
        \<and> list_all (\<lambda>k'. attrs d' k' = None) (setAfter ''active_directory_configuration''))
   \<and> (\<exists>d'. dataSourceONTAPStorageVirtualMachineRead example_externals
            (example_data (refusing ''endpoints'')) (example_client [example_svm])
          = Returns [\<lparr>Severity = SeverityError,
               Summary = ''setting endpoints: invalid value''\<rparr>] d'
        \<and> list_all (\<lambda>k'. attrs d' k' = None) (setAfter ''endpoints''))
   \<and> (\<exists>d'. dataSourceONTAPStorageVirtualMachineRead example_externals
            (example_data (refusing ''lifecycle_transition_reason''))
            (example_client [example_svm])
          = Returns [\<lparr>Severity = SeverityError,
               Summary = ''setting lifecycle_transition_reason: invalid value''\<rparr>] d'
        \<and> list_all (\<lambda>k'. attrs d' k' = None) (setAfter ''lifecycle_transition_reason''))
   \<and> (\<exists>d'. dataSourceONTAPStorageVirtualMachineRead example_externals
            (example_data (refusing ''tags'')) (example_client [example_svm])
          = Returns [\<lparr>Severity = SeverityError,
               Summary = ''setting tags: invalid value''\<rparr>] d')"
proof -
  have t: "CreationTime example_svm \<noteq> None"
    by (simp add: example_svm_def)
  have w: "WriteField (example_data (refusing k0)) k v
             = (if k = k0 then Some (New ''invalid value'') else None)" for k0 k v
    by (simp add: example_data_def refusing_def)
  have a: "attrs (example_data u) k = None" for u k
    by (simp add: example_data_def)
  note r = set_failure_aborts_read [OF example_find, where err = "New ''invalid value''"]
  have 1: "\<exists>d'. dataSourceONTAPStorageVirtualMachineRead example_externals
            (example_data (refusing ''active_directory_configuration''))
            (example_client [example_svm])
          = Returns [\<lparr>Severity = SeverityError,
               Summary = ''setting active_directory_configuration: invalid value''\<rparr>] d'
        \<and> list_all (\<lambda>k'. attrs d' k' = None) (setAfter ''active_directory_configuration'')"
    using r [of "refusing ''active_directory_configuration''", THEN conjunct1]
    by (simp add: w a list_all_iff)
  have 2: "\<exists>d'. dataSourceONTAPStorageVirtualMachineRead example_externals
            (example_data (refusing ''endpoints'')) (example_client [example_svm])
          = Returns [\<lparr>Severity = SeverityError,
               Summary = ''setting endpoints: invalid value''\<rparr>] d'
        \<and> list_all (\<lambda>k'. attrs d' k' = None) (setAfter ''endpoints'')"
    using r [of "refusing ''endpoints''", THEN conjunct2, THEN conjunct1] t
    by (simp add: w a list_all_iff Attr_defs)
  have 3: "\<exists>d'. dataSourceONTAPStorageVirtualMachineRead example_externals
            (example_data (refusing ''lifecycle_transition_reason''))
            (example_client [example_svm])
          = Returns [\<lparr>Severity = SeverityError,
               Summary = ''setting lifecycle_transition_reason: invalid value''\<rparr>] d'
        \<and> list_all (\<lambda>k'. attrs d' k' = None) (setAfter ''lifecycle_transition_reason'')"
    using r [of "refusing ''lifecycle_transition_reason''",
        THEN conjunct2, THEN conjunct2, THEN conjunct1] t
    by (simp add: w a list_all_iff Attr_defs)
  have 4: "\<exists>d'. dataSourceONTAPStorageVirtualMachineRead example_externals
            (example_data (refusing ''tags'')) (example_client [example_svm])
          = Returns [\<lparr>Severity = SeverityError,
               Summary = ''setting tags: invalid value''\<rparr>] d'"
    using r [of "refusing ''tags''", THEN conjunct2, THEN conjunct2, THEN conjunct2] t
    by (auto simp add: w a Attr_defs)
  from 1 2 3 4 show ?thesis by blast
qed

section \<open>The read handler: tags\<close>




section \<open>The describe request\<close>

text \<open>
  C6. When \<^verbatim>\<open>GetOk\<close> reports an identifier, the request's identifier list is exactly
  that identifier, and the configured filters are in the request all the same: one
  filter per configured block, in order (and no filter list when none is configured).
\<close>

theorem explicit_id_restricts_request:
  assumes "GetOk_id d = (v, True)"
  shows "StorageVirtualMachineIds (describeInput d) = Some [v]
         \<and> Filters (describeInput d) =
             (if Get_filter d = [] then None
              else Some (map (\<lambda>(n, vs). \<lparr>FilterName = Some n, FilterValues = vs\<rparr>)
                     (Get_filter d)))"
  using assms
  by (simp add: describeInput_def newStorageVirtualMachineFilterList_def StringSlice_def
      len_def)

theorem explicit_id_restricts_request_witness:
  "GetOk_id (example_data accepting) = (''svm-0123456789abcdef0'', True)
   \<and> StorageVirtualMachineIds (describeInput (example_data accepting))
       = Some [''svm-0123456789abcdef0'']
   \<and> Filters (describeInput (example_data accepting))
       = Some [\<lparr>FilterName = Some ''file-system-id'',
                 FilterValues = [''fs-0123456789abcdef0'']\<rparr>]"
proof -
  have h: "GetOk_id (example_data accepting) = (''svm-0123456789abcdef0'', True)"
    by (simp add: example_data_def)
  have f: "Get_filter (example_data accepting)
             = [(''file-system-id'', [''fs-0123456789abcdef0''])]"
    by (simp add: example_data_def)
  from explicit_id_restricts_request [OF h] h show ?thesis
    by (simp add: f)
qed

text \<open>
  C7. When no filter is configured, the request's filters field is nil, not an empty
  filter list.
\<close>

theorem empty_filters_omitted:
  assumes "Get_filter d = []"
  shows "Filters (describeInput d) = None \<and> Filters (describeInput d) \<noteq> Some []"
  using assms
  by (simp add: describeInput_def newStorageVirtualMachineFilterList_def len_def Let_def
      split: prod.splits)

theorem empty_filters_omitted_witness:
  "Get_filter ((example_data accepting)\<lparr>Get_filter := []\<rparr>) = []
   \<and> Filters (describeInput ((example_data accepting)\<lparr>Get_filter := []\<rparr>)) = None
   \<and> Filters (describeInput ((example_data accepting)\<lparr>Get_filter := []\<rparr>)) \<noteq> Some []"
proof -
  have h: "Get_filter ((example_data accepting)\<lparr>Get_filter := []\<rparr>) = []"
    by simp
  from empty_filters_omitted [OF h] h show ?thesis by simp
qed

section \<open>The lifecycle transition reason flattener\<close>

text \<open>
  C4. An absent (nil) lifecycle transition reason flattens to the empty list, which is not
  the nil slice.
\<close>

theorem flatten_absent_is_empty_list:
  "flattenLifecycleTransitionReason None = Some []
   \<and> flattenLifecycleTransitionReason None \<noteq> None"
  by (simp add: flattenLifecycleTransitionReason_def)

text \<open>
  C5. A present lifecycle transition reason with a message flattens to a list of exactly
  one element: a map whose only key, \<^verbatim>\<open>message\<close>, is bound to that message.
\<close>

theorem flatten_present_message:
  assumes "Message r = Some msg"
  shows "flattenLifecycleTransitionReason (Some r) = Some [VMap [''message'' \<mapsto> VString msg]]"
  using assms by (simp add: flattenLifecycleTransitionReason_def StringValue_def)

theorem flatten_present_message_witness:
  "Message \<lparr>Message = Some ''Deployment failed''\<rparr> = Some ''Deployment failed''
   \<and> flattenLifecycleTransitionReason (Some \<lparr>Message = Some ''Deployment failed''\<rparr>)
       = Some [VMap [''message'' \<mapsto> VString ''Deployment failed'']]"
  using flatten_present_message [of "\<lparr>Message = Some ''Deployment failed''\<rparr>" "''Deployment failed''"]
  by simp



text \<open>
  C9. For every input, nil included, the flattener returns a list that is not the nil
  slice and has at most one element.
\<close>

theorem flatten_at_most_one:
  "\<exists>xs. flattenLifecycleTransitionReason rs = Some xs \<and> length xs \<le> 1"
  by (cases rs) (simp_all add: flattenLifecycleTransitionReason_def Let_def)

text \<open>
  C10. A present lifecycle transition reason without a message flattens to a list of one
  element, a map that has no \<^verbatim>\<open>message\<close> key: neither the empty list nor a map that
  binds \<^verbatim>\<open>message\<close> to the empty string.
\<close>

theorem flatten_present_without_message:
  assumes "Message r = None"
  shows "flattenLifecycleTransitionReason (Some r) = Some [VMap Map.empty]
         \<and> flattenLifecycleTransitionReason (Some r) \<noteq> Some []
         \<and> flattenLifecycleTransitionReason (Some r)
             \<noteq> Some [VMap [''message'' \<mapsto> VString '''']]"
proof -
  have "Map.empty \<noteq> [''message'' \<mapsto> VString '''']"
    by (metis map_upd_nonempty)
  with assms show ?thesis
    by (simp add: flattenLifecycleTransitionReason_def)
qed

theorem flatten_present_without_message_witness:
  "Message \<lparr>Message = None\<rparr> = None
   \<and> flattenLifecycleTransitionReason (Some \<lparr>Message = None\<rparr>) = Some [VMap Map.empty]
   \<and> flattenLifecycleTransitionReason (Some \<lparr>Message = None\<rparr>) \<noteq> Some []
   \<and> flattenLifecycleTransitionReason (Some \<lparr>Message = None\<rparr>)
       \<noteq> Some [VMap [''message'' \<mapsto> VString '''']]"
proof -
  have h: "Message \<lparr>Message = None\<rparr> = None" by simp
  from flatten_present_without_message [OF h] h show ?thesis by blast
qed

end
